theory Spec2Isabelle
  imports Main
begin

section \<open>Values exchanged with the collaborators\<close>

text \<open>
  The workspace editing service (\<^verbatim>\<open>workspaceEditingService.ts\<close>) is a class with five injected
  services. Its methods return promises. The embedding gives every method the pair of the
  collaborator calls it made, in order, and the way it ended: a promise that resolved with a
  value, a promise that was rejected, or an exception thrown before any promise was returned.
\<close>

datatype error = TypeError | Canceled | Failure string

datatype void = Undefined | Null

datatype 'a outcome = Resolved 'a | Rejected error | Thrown error

datatype json = JString string | JArray "json list" | JObject "(string \<times> json) list"

datatype severity = Ignore | Info | Warning | Error

text \<open>
  One constructor per collaborator method the service calls. \<open>Write target key value create\<close>
  is \<^verbatim>\<open>jsonEditingService.write(target, { key, value }, create)\<close>.
\<close>

datatype 'u call =
    is_GetWorkspace: GetWorkspace
  | is_Choose: Choose severity string "string list" nat
  | is_GenerateUuid: GenerateUuid
  | is_Write: Write 'u string json bool
  | is_OpenWindow: OpenWindow "string list"

text \<open>
  The URI class and Node's \<^verbatim>\<open>path.join\<close> are imported by the service and are not part of it:
  they are parameters of the embedding. \<open>toString ops u skipEncoding\<close> is
  \<^verbatim>\<open>u.toString(skipEncoding)\<close>; \<^verbatim>\<open>u.toString()\<close> is \<open>toString ops u False\<close>.
\<close>

record 'u uri_ops =
  fsPath :: "'u \<Rightarrow> string"
  toString :: "'u \<Rightarrow> bool \<Rightarrow> string"
  uri_file :: "string \<Rightarrow> 'u"
  path_join :: "string \<Rightarrow> string \<Rightarrow> string"

record 'u workspace =
  ws_roots :: "'u list"
  ws_configuration :: "'u option"

text \<open>
  Modelled from the spec: the five injected services are interfaces whose implementations are
  not among the sources. The record holds what they answer during one operation. A
  collaborator promise is a sum: \<open>Inl e\<close> is a rejected promise, \<open>Inr v\<close> a resolved one. A
  prompt that fails or that the user dismisses is a rejected promise (\<open>Canceled\<close> for the
  dismissal); a resolved prompt carries the index of the chosen option.

  Modelled from the spec: \<^verbatim>\<open>generateUuid\<close> of \<^verbatim>\<open>vs/base/common/uuid\<close> is imported by the service
  and is not among the sources. \<open>uuid_generateUuid s k\<close> is the generator's answer to its call
  number \<open>k\<close> (counted from \<open>0\<close>), and \<open>uuid_calls s\<close> is the number of calls it has answered
  before the operation starts. The spec has the generator return fresh unique identifiers:
  its answers never repeat, which is \<open>inj (uuid_generateUuid s)\<close>.
\<close>

record 'u services =
  ctx_hasWorkspace :: bool
  ctx_getWorkspace :: "'u workspace"
  env_appQuality :: string
  env_appSettingsHome :: string
  uuid_generateUuid :: "nat \<Rightarrow> string"
  uuid_calls :: nat
  json_write :: "'u \<Rightarrow> string \<Rightarrow> json \<Rightarrow> bool \<Rightarrow> error + void"
  choice_choose :: "severity \<Rightarrow> string \<Rightarrow> string list \<Rightarrow> nat \<Rightarrow> error + nat"
  windows_openWindow :: "string list \<Rightarrow> error + void"

section \<open>Promises and traces\<close>

fun promise :: "error + 'a \<Rightarrow> 'a outcome" where
  "promise (Inl e) = Rejected e"
| "promise (Inr v) = Resolved v"

definition prepend :: "'c list \<Rightarrow> 'c list \<times> 'a \<Rightarrow> 'c list \<times> 'a" where
  "prepend t r = (t @ fst r, snd r)"

text \<open>
  \<^verbatim>\<open>p.then(f)\<close>: the callback runs only when \<open>p\<close> resolved; a rejection passes through.
\<close>

fun then_p :: "'c list \<times> 'a outcome \<Rightarrow> ('a \<Rightarrow> 'c list \<times> 'b outcome) \<Rightarrow> 'c list \<times> 'b outcome" where
  "then_p (t, Resolved v) f = prepend t (f v)"
| "then_p (t, Rejected e) f = (t, Rejected e)"
| "then_p (t, Thrown e) f = (t, Thrown e)"

section \<open>Array helpers\<close>

text \<open>\<^verbatim>\<open>Array.prototype.indexOf\<close>: the first index holding the element, or \<open>-1\<close>.\<close>

fun indexOf :: "'a list \<Rightarrow> 'a \<Rightarrow> int" where
  "indexOf [] x = - 1"
| "indexOf (y # ys) x =
     (if y = x then 0 else (let i = indexOf ys x in if i = - 1 then - 1 else i + 1))"

text \<open>
  Modelled from the spec: \<^verbatim>\<open>equals\<close> of \<^verbatim>\<open>vs/base/common/arrays\<close> is imported by the service
  and is not among the sources. The spec has it as element-wise, order-sensitive equality.
\<close>

fun equals :: "'a list \<Rightarrow> 'a list \<Rightarrow> bool" where
  "equals [] [] = True"
| "equals (a # as) (b # bs) = (a = b \<and> equals as bs)"
| "equals _ _ = False"

text \<open>
  Modelled from the spec: \<^verbatim>\<open>distinct\<close> of \<^verbatim>\<open>vs/base/common/arrays\<close> is imported by the service
  and is not among the sources. The spec has it collapse duplicates to one entry, the first
  occurrence winning: an element is kept unless it was seen before.
\<close>

fun distinct_from :: "'a list \<Rightarrow> 'a list \<Rightarrow> 'a list" where
  "distinct_from seen [] = []"
| "distinct_from seen (x # xs) =
     (if x \<in> set seen then distinct_from seen xs else x # distinct_from (x # seen) xs)"

definition distinct_arr :: "'a list \<Rightarrow> 'a list" where
  "distinct_arr array = distinct_from [] array"

section \<open>The service\<close>

text \<open>
  \<^verbatim>\<open>supported()\<close>, lines 33 to 40. No method of the class calls it: the guards of
  \<^verbatim>\<open>addRoots\<close> and \<^verbatim>\<open>removeRoots\<close> read the property \<^verbatim>\<open>this.supported\<close>, which is the
  function object itself.
\<close>

definition supported :: "'u services \<Rightarrow> bool" where
  "supported s = (if ctx_hasWorkspace s then False else env_appQuality s \<noteq> ''stable'')"

text \<open>JavaScript's truthiness of a function object: every function object is truthy.\<close>

definition truthy :: "('a \<Rightarrow> 'b) \<Rightarrow> bool" where
  "truthy f = True"

text \<open>\<^verbatim>\<open>validateRoots\<close>, lines 86 to 94. The argument may be \<^verbatim>\<open>null\<close>, here \<open>None\<close>.\<close>

definition validateRoots :: "'u uri_ops \<Rightarrow> 'u list option \<Rightarrow> string list" where
  "validateRoots ops roots =
     (case roots of
        None \<Rightarrow> []
      | Some roots \<Rightarrow> distinct_arr (map (\<lambda>root. toString ops root True) roots))"

text \<open>\<^verbatim>\<open>_doCreateWorkspace\<close>, lines 102 to 106.\<close>

definition doCreateWorkspace ::
    "'u uri_ops \<Rightarrow> 'u services \<Rightarrow> string list \<Rightarrow> 'u call list \<times> string outcome" where
  "doCreateWorkspace ops s folders =
     (let ID = uuid_generateUuid s (uuid_calls s);
          newConfiguration = path_join ops (env_appSettingsHome s) (ID @ ''.vscode'');
          target = uri_file ops newConfiguration;
          payload = JObject [(''ID'', JString ID), (''folders'', JArray (map JString folders))]
      in then_p ([GenerateUuid, Write target [] payload True],
                 promise (json_write s target [] payload True))
           (\<lambda>_. ([], Resolved newConfiguration)))"

text \<open>\<^verbatim>\<open>createWorkspace\<close>, lines 96 to 100.\<close>

definition prompt :: string where
  "prompt = ''This action will create a new workspace. Would you like to copy settings from current workspace?''"

definition createWorkspace ::
    "'u uri_ops \<Rightarrow> 'u services \<Rightarrow> string list \<Rightarrow> 'u call list \<times> void outcome" where
  "createWorkspace ops s newRoots =
     then_p
       (then_p ([Choose Info prompt [''Yes'', ''No''] 1],
                promise (choice_choose s Info prompt [''Yes'', ''No''] 1))
          (\<lambda>option. doCreateWorkspace ops s newRoots))
       (\<lambda>newConfiguration. ([OpenWindow [newConfiguration]],
                             promise (windows_openWindow s [newConfiguration])))"

text \<open>\<^verbatim>\<open>doSetRoots\<close>, lines 63 to 84. It reads the workspace twice (lines 64 and 65).\<close>

definition doSetRoots ::
    "'u uri_ops \<Rightarrow> 'u services \<Rightarrow> 'u list option \<Rightarrow> 'u call list \<times> void outcome" where
  "doSetRoots ops s newRoots =
     (let workspace = ctx_getWorkspace s;
          currentWorkspaceRoots = map (fsPath ops) (ws_roots (ctx_getWorkspace s));
          newWorkspaceRoots = validateRoots ops newRoots
      in if equals currentWorkspaceRoots newWorkspaceRoots
         then ([GetWorkspace, GetWorkspace], Resolved Undefined)
         else if length newWorkspaceRoots \<noteq> 0
         then (case ws_configuration workspace of
                 None \<Rightarrow> prepend [GetWorkspace, GetWorkspace] (createWorkspace ops s newWorkspaceRoots)
               | Some c \<Rightarrow>
                   ([GetWorkspace, GetWorkspace,
                     Write c ''folders'' (JArray (map JString newWorkspaceRoots)) True],
                    promise (json_write s c ''folders'' (JArray (map JString newWorkspaceRoots)) True)))
         else ([GetWorkspace, GetWorkspace], Resolved Null))"

text \<open>
  \<^verbatim>\<open>addRoots\<close>, lines 42 to 50. The argument may be \<^verbatim>\<open>null\<close>; spreading \<^verbatim>\<open>null\<close> into the
  array literal of line 49 throws a TypeError, after the read of line 47.
\<close>

definition addRoots ::
    "'u uri_ops \<Rightarrow> 'u services \<Rightarrow> 'u list option \<Rightarrow> 'u call list \<times> void outcome" where
  "addRoots ops s rootsToAdd =
     (if \<not> truthy (supported :: 'u services \<Rightarrow> bool) then ([], Resolved Undefined)
      else let roots = ws_roots (ctx_getWorkspace s)
           in (case rootsToAdd of
                 None \<Rightarrow> ([GetWorkspace], Thrown TypeError)
               | Some toAdd \<Rightarrow> prepend [GetWorkspace] (doSetRoots ops s (Some (roots @ toAdd)))))"

text \<open>
  \<^verbatim>\<open>removeRoots\<close>, lines 52 to 61. Calling \<^verbatim>\<open>map\<close> on \<^verbatim>\<open>null\<close> in line 58 throws a TypeError,
  after the read of line 57.
\<close>

definition removeRoots ::
    "'u uri_ops \<Rightarrow> 'u services \<Rightarrow> 'u list option \<Rightarrow> 'u call list \<times> void outcome" where
  "removeRoots ops s rootsToRemove =
     (if \<not> truthy (supported :: 'u services \<Rightarrow> bool) then ([], Resolved Undefined)
      else let roots = ws_roots (ctx_getWorkspace s)
           in (case rootsToRemove of
                 None \<Rightarrow> ([GetWorkspace], Thrown TypeError)
               | Some toRemove \<Rightarrow>
                   (let rootsToRemoveRaw = map (\<lambda>root. toString ops root False) toRemove
                    in prepend [GetWorkspace]
                         (doSetRoots ops s
                            (Some (filter (\<lambda>root. indexOf rootsToRemoveRaw (toString ops root False) = - 1)
                                     roots))))))"

section \<open>The session after an operation\<close>

text \<open>
  The generator has answered once for every \<open>GenerateUuid\<close> of the trace. What the writes do to
  the workspace context is the persistence collaborator's business and is not modelled.
\<close>

definition after :: "'u call list \<Rightarrow> 'u services \<Rightarrow> 'u services" where
  "after t s = s\<lparr>uuid_calls := uuid_calls s + length (filter is_GenerateUuid t)\<rparr>"

section \<open>Reading a trace\<close>

text \<open>The values handed to the JSON writer, in order, and a top-level field of a JSON object.\<close>

fun written :: "'u call list \<Rightarrow> json list" where
  "written [] = []"
| "written (Write target key v create # cs) = v # written cs"
| "written (c # cs) = written cs"

fun json_field :: "json \<Rightarrow> string \<Rightarrow> json option" where
  "json_field (JObject members) name = map_of members name"
| "json_field v name = None"

text \<open>The identifiers of the documents handed to the JSON writer: their top-level field \<^verbatim>\<open>ID\<close>.\<close>

definition written_ids :: "'u call list \<Rightarrow> json option list" where
  "written_ids t = map (\<lambda>v. json_field v ''ID'') (written t)"


section \<open>The specification's wording, for comparison\<close>

text \<open>
  The desired set of a removal as the specification words it: the current roots without those
  whose canonical string form, the one the Validator takes (\<^verbatim>\<open>toString(true)\<close>), matches an
  entry of \<^verbatim>\<open>rootsToRemove\<close>.
\<close>

definition removeRoots_spec :: "'u uri_ops \<Rightarrow> 'u list \<Rightarrow> 'u list \<Rightarrow> 'u list" where
  "removeRoots_spec ops current rootsToRemove =
     filter (\<lambda>root. toString ops root True \<notin> set (map (\<lambda>r. toString ops r True) rootsToRemove))
       current"

text \<open>
  The initial document as the specification words it: top-level fields \<^verbatim>\<open>id\<close> and
  \<^verbatim>\<open>folders\<close>.
\<close>

definition payload_spec :: "string \<Rightarrow> string list \<Rightarrow> json" where
  "payload_spec ident folders =
     JObject [(''id'', JString ident), (''folders'', JArray (map JString folders))]"

section \<open>A URI class for the examples\<close>

text \<open>
  Modelled from the spec: the class \<^verbatim>\<open>URI\<close> of \<^verbatim>\<open>vs/base/common/uri\<close> is imported by the
  service and is not among the sources. The specification describes a root as a URI-like
  structure with a scheme and a filesystem path, compared by its string form with encoding
  disabled. The record below has the five components of the generic URI syntax
  \<^verbatim>\<open>scheme://authority/path?query#fragment\<close>, held decoded. \<open>asFormatted uri skipEncoding\<close>
  lays the components out in that syntax. Without \<open>skipEncoding\<close> every character of a
  component that is not unreserved is percent-encoded (\<open>encodeURIComponent2\<close>; the slashes of
  a path are kept). With \<open>skipEncoding\<close> a component is left as it is except for its first
  \<^verbatim>\<open>#\<close> or \<^verbatim>\<open>?\<close>, which is still percent-encoded (\<open>encodeNoop\<close>; in a path, the first of
  every segment). \<open>URI_fsPath\<close> is the path on a POSIX file system. The folding of authorities
  and of Windows drive letters to lower case is left out; the examples have no authority and
  no drive letter.
\<close>

record URI =
  uri_scheme :: string
  uri_authority :: string
  uri_path :: string
  uri_query :: string
  uri_fragment :: string

definition unreserved :: "char \<Rightarrow> bool" where
  "unreserved c =
     (c \<in> set ''ABCDEFGHIJKLMNOPQRSTUVWXYZabcdefghijklmnopqrstuvwxyz0123456789-_.~'')"

definition hex_digit :: "nat \<Rightarrow> char" where
  "hex_digit n = ''0123456789ABCDEF'' ! (n mod 16)"

definition encode_char :: "char \<Rightarrow> string" where
  "encode_char c = [CHR ''%'', hex_digit (of_char c div 16), hex_digit (of_char c mod 16)]"

definition encodeURIComponent2 :: "string \<Rightarrow> string" where
  "encodeURIComponent2 str = concat (map (\<lambda>c. if unreserved c then [c] else encode_char c) str)"

definition encodePath :: "string \<Rightarrow> string" where
  "encodePath str =
     concat (map (\<lambda>c. if c = CHR ''/'' then [c] else if unreserved c then [c] else encode_char c) str)"

fun encodeNoop :: "string \<Rightarrow> string" where
  "encodeNoop [] = []"
| "encodeNoop (c # cs) =
     (if c = CHR ''#'' then encode_char c @ cs
      else if c = CHR ''?'' then encode_char c @ cs
      else c # encodeNoop cs)"

text \<open>
  \<open>encodeNoop\<close> on every segment of a path: \<open>seen\<close> says that the segment at hand has had its
  \<^verbatim>\<open>#\<close> or \<^verbatim>\<open>?\<close> encoded already.
\<close>

fun encodeNoopPath :: "bool \<Rightarrow> string \<Rightarrow> string" where
  "encodeNoopPath seen [] = []"
| "encodeNoopPath seen (c # cs) =
     (if c = CHR ''/'' then c # encodeNoopPath False cs
      else if seen then c # encodeNoopPath seen cs
      else if c = CHR ''#'' then encode_char c @ encodeNoopPath True cs
      else if c = CHR ''?'' then encode_char c @ encodeNoopPath True cs
      else c # encodeNoopPath seen cs)"

definition asFormatted :: "URI \<Rightarrow> bool \<Rightarrow> string" where
  "asFormatted uri skipEncoding =
     (if uri_scheme uri = [] then [] else uri_scheme uri @ '':'')
     @ (if uri_authority uri = [] then (if uri_scheme uri = ''file'' then ''//'' else []) else ''//'')
     @ (if skipEncoding then encodeNoop (uri_authority uri)
        else encodeURIComponent2 (uri_authority uri))
     @ (if skipEncoding then encodeNoopPath False (uri_path uri) else encodePath (uri_path uri))
     @ (if uri_query uri = [] then []
        else ''?'' @ (if skipEncoding then encodeNoop (uri_query uri)
                      else encodeURIComponent2 (uri_query uri)))
     @ (if uri_fragment uri = [] then []
        else ''#'' @ (if skipEncoding then encodeNoop (uri_fragment uri)
                      else encodeURIComponent2 (uri_fragment uri)))"

definition URI_fsPath :: "URI \<Rightarrow> string" where
  "URI_fsPath uri =
     (if uri_authority uri = [] then uri_path uri
      else if uri_path uri = [] then uri_path uri
      else if uri_scheme uri = ''file'' then ''//'' @ uri_authority uri @ uri_path uri
      else uri_path uri)"

definition URI_file :: "string \<Rightarrow> URI" where
  "URI_file p =
     \<lparr>uri_scheme = ''file'', uri_authority = [], uri_path = p, uri_query = [], uri_fragment = []\<rparr>"

text \<open>
  Modelled from the spec: Node's \<^verbatim>\<open>path.join\<close> is not among the sources. For a directory
  without a trailing slash and a plain file name it puts one slash between them.
\<close>

definition posix_join :: "string \<Rightarrow> string \<Rightarrow> string" where
  "posix_join dir name = dir @ ''/'' @ name"

definition posix :: "URI uri_ops" where
  "posix = \<lparr>fsPath = URI_fsPath, toString = asFormatted, uri_file = URI_file,
            path_join = posix_join\<rparr>"

section \<open>Example sessions\<close>

definition folder_a :: URI where "folder_a = URI_file ''/a''"
definition folder_b :: URI where "folder_b = URI_file ''/b''"
definition folder_c :: URI where "folder_c = URI_file ''/c''"

text \<open>A root without a scheme, as \<^verbatim>\<open>URI.from({ path: '/a' })\<close> builds it.\<close>

definition plain_root :: URI where
  "plain_root =
     \<lparr>uri_scheme = [], uri_authority = [], uri_path = ''/a'', uri_query = [], uri_fragment = []\<rparr>"

text \<open>
  Two roots as \<^verbatim>\<open>URI.parse\<close> gives them for \<^verbatim>\<open>file:///a?p%23q%23r\<close> and
  \<^verbatim>\<open>file:///a?p%23q#r\<close>: the first has the query \<^verbatim>\<open>p#q#r\<close>, the second the query \<^verbatim>\<open>p#q\<close>
  and the fragment \<^verbatim>\<open>r\<close>.
\<close>

definition query_root :: URI where
  "query_root =
     \<lparr>uri_scheme = ''file'', uri_authority = [], uri_path = ''/a'', uri_query = ''p#q#r'',
      uri_fragment = []\<rparr>"

definition fragment_root :: URI where
  "fragment_root =
     \<lparr>uri_scheme = ''file'', uri_authority = [], uri_path = ''/a'', uri_query = ''p#q'',
      uri_fragment = ''r''\<rparr>"

definition workspace_file :: URI where
  "workspace_file = URI_file ''/home/user/.config/Code/0a1b.vscode''"

definition write_ok :: "URI \<Rightarrow> string \<Rightarrow> json \<Rightarrow> bool \<Rightarrow> error + void" where
  "write_ok target key v create = Inr Undefined"

definition write_fails :: "URI \<Rightarrow> string \<Rightarrow> json \<Rightarrow> bool \<Rightarrow> error + void" where
  "write_fails target key v create = Inl (Failure ''EACCES'')"

definition choose_no :: "severity \<Rightarrow> string \<Rightarrow> string list \<Rightarrow> nat \<Rightarrow> error + nat" where
  "choose_no sev message options defaultIndex = Inr 1"

definition choose_dismissed :: "severity \<Rightarrow> string \<Rightarrow> string list \<Rightarrow> nat \<Rightarrow> error + nat" where
  "choose_dismissed sev message options defaultIndex = Inl Canceled"

definition open_ok :: "string list \<Rightarrow> error + void" where
  "open_ok paths = Inr Undefined"

text \<open>A generator whose answers never repeat: answer number \<open>k\<close> is \<open>k\<close> characters longer.\<close>

definition example_uuid :: "nat \<Rightarrow> string" where
  "example_uuid k = ''7f3c'' @ replicate k CHR ''0''"

text \<open>
  A session of a non-stable build with no folder workspace, the given roots and the given
  workspace configuration, in which every collaborator succeeds and the prompt is answered
  \<^verbatim>\<open>No\<close>.
\<close>

definition editor :: "URI list \<Rightarrow> URI option \<Rightarrow> URI services" where
  "editor rs conf =
     \<lparr>ctx_hasWorkspace = False,
      ctx_getWorkspace = \<lparr>ws_roots = rs, ws_configuration = conf\<rparr>,
      env_appQuality = ''insider'',
      env_appSettingsHome = ''/home/user/.config/Code'',
      uuid_generateUuid = example_uuid,
      uuid_calls = 0,
      json_write = write_ok,
      choice_choose = choose_no,
      windows_openWindow = open_ok\<rparr>"

text \<open>The same session in a stable build with a folder workspace open: the gate is closed.\<close>

definition stable_editor :: "URI list \<Rightarrow> URI option \<Rightarrow> URI services" where
  "stable_editor rs conf = (editor rs conf)\<lparr>ctx_hasWorkspace := True, env_appQuality := ''stable''\<rparr>"

text \<open>The same session with a user who dismisses the prompt.\<close>

definition dismissing_editor :: "URI list \<Rightarrow> URI option \<Rightarrow> URI services" where
  "dismissing_editor rs conf = (editor rs conf)\<lparr>choice_choose := choose_dismissed\<rparr>"

text \<open>The same session with a JSON writer that fails.\<close>

definition failing_editor :: "URI list \<Rightarrow> URI option \<Rightarrow> URI services" where
  "failing_editor rs conf = (editor rs conf)\<lparr>json_write := write_fails\<rparr>"

section \<open>Unfolding the examples\<close>

lemmas uri_eval = posix_def asFormatted_def URI_fsPath_def URI_file_def posix_join_def
  encodeURIComponent2_def encodePath_def unreserved_def encode_char_def hex_digit_def

lemmas session_eval = editor_def stable_editor_def dismissing_editor_def failing_editor_def
  write_ok_def write_fails_def choose_no_def choose_dismissed_def open_ok_def
  folder_a_def folder_b_def folder_c_def plain_root_def query_root_def fragment_root_def
  workspace_file_def example_uuid_def

lemmas service_eval = addRoots_def removeRoots_def doSetRoots_def validateRoots_def
  createWorkspace_def doCreateWorkspace_def distinct_arr_def truthy_def prepend_def Let_def

section \<open>Facts about the array helpers\<close>

lemma equals_iff: "equals xs ys \<longleftrightarrow> xs = ys"
  by (induction xs ys rule: equals.induct) auto

lemma indexOf_lower: "- 1 \<le> indexOf xs x"
  by (induction xs) (auto simp: Let_def)

lemma indexOf_absent: "indexOf xs x = - 1 \<longleftrightarrow> x \<notin> set xs"
proof (induction xs)
  case Nil
  show ?case by simp
next
  case (Cons y ys)
  have "- 1 \<le> indexOf ys x" by (rule indexOf_lower)
  then have "indexOf ys x + 1 \<noteq> - 1" by arith
  with Cons show ?case by (auto simp: Let_def)
qed

lemma indexOf_Cons_other:
  assumes "y \<noteq> x" and "x \<in> set ys"
  shows "indexOf (y # ys) x = indexOf ys x + 1"
  using assms indexOf_absent [of ys x] by (simp add: Let_def)

lemma set_distinct_from: "set (distinct_from seen xs) = set xs - set seen"
  by (induction xs arbitrary: seen) auto

lemma distinct_distinct_from: "distinct (distinct_from seen xs)"
  by (induction xs arbitrary: seen) (auto simp: set_distinct_from)

lemma distinct_from_order:
  "sorted_wrt (<) (map (indexOf xs) (distinct_from seen xs))"
proof (induction xs arbitrary: seen)
  case Nil
  show ?case by simp
next
  case (Cons x xs)
  have shift: "map (indexOf (x # xs)) (distinct_from sn xs) = map (\<lambda>y. indexOf xs y + 1) (distinct_from sn xs)"
    if "x \<in> set sn" for sn
  proof (rule map_cong [OF refl])
    fix y assume "y \<in> set (distinct_from sn xs)"
    then have "y \<in> set xs" and "y \<notin> set sn" by (simp_all add: set_distinct_from)
    with that show "indexOf (x # xs) y = indexOf xs y + 1"
      by (intro indexOf_Cons_other) auto
  qed
  have mono: "sorted_wrt (<) (map (\<lambda>y. indexOf xs y + 1) (distinct_from sn xs))" for sn
  proof -
    have "sorted_wrt (\<lambda>a b. indexOf xs a < indexOf xs b) (distinct_from sn xs)"
      using Cons.IH [of sn] by (simp add: sorted_wrt_map)
    then have "sorted_wrt (\<lambda>a b. indexOf xs a + 1 < indexOf xs b + 1) (distinct_from sn xs)"
      by (simp only: add_less_cancel_right)
    then show ?thesis unfolding sorted_wrt_map .
  qed
  show ?case
  proof (cases "x \<in> set seen")
    case True
    then have "distinct_from seen (x # xs) = distinct_from seen xs" by simp
    then show ?thesis using shift [OF True] mono [of seen] by (simp only:)
  next
    case False
    let ?ys = "distinct_from (x # seen) xs"
    have sh: "map (indexOf (x # xs)) ?ys = map (\<lambda>y. indexOf xs y + 1) ?ys"
      by (rule shift) simp
    have first: "indexOf (x # xs) x = 0" by simp
    have pos: "0 < indexOf xs y + 1" if "y \<in> set ?ys" for y
    proof -
      from that have "y \<in> set xs" by (simp add: set_distinct_from)
      then have "indexOf xs y \<noteq> - 1" by (simp add: indexOf_absent)
      with indexOf_lower [of xs y] show ?thesis by arith
    qed
    have "sorted_wrt (<) (indexOf (x # xs) x # map (indexOf (x # xs)) ?ys)"
      unfolding sh first using mono [of "x # seen"] pos by (simp del: indexOf.simps)
    moreover from False have "distinct_from seen (x # xs) = x # ?ys" by simp
    ultimately show ?thesis by (simp only: list.map)
  qed
qed

lemma distinct_arr_Nil_iff: "distinct_arr xs = [] \<longleftrightarrow> xs = []"
  by (cases xs) (simp_all add: distinct_arr_def)






section \<open>The branches of the service\<close>

lemma validateRoots_Nil_iff: "validateRoots ops (Some rs) = [] \<longleftrightarrow> rs = []"
  by (simp add: validateRoots_def distinct_arr_Nil_iff)


lemma doSetRoots_write:
  assumes "ws_configuration (ctx_getWorkspace s) = Some c"
    and "map (fsPath ops) (ws_roots (ctx_getWorkspace s)) \<noteq> validateRoots ops newRoots"
    and "validateRoots ops newRoots \<noteq> []"
  shows "doSetRoots ops s newRoots =
     ([GetWorkspace, GetWorkspace,
       Write c ''folders'' (JArray (map JString (validateRoots ops newRoots))) True],
      promise (json_write s c ''folders'' (JArray (map JString (validateRoots ops newRoots))) True))"
  using assms by (simp add: doSetRoots_def equals_iff Let_def)

lemma doSetRoots_create:
  assumes "ws_configuration (ctx_getWorkspace s) = None"
    and "map (fsPath ops) (ws_roots (ctx_getWorkspace s)) \<noteq> validateRoots ops newRoots"
    and "validateRoots ops newRoots \<noteq> []"
  shows "doSetRoots ops s newRoots =
     prepend [GetWorkspace, GetWorkspace] (createWorkspace ops s (validateRoots ops newRoots))"
  using assms by (simp add: doSetRoots_def equals_iff Let_def)

lemma doSetRoots_empty:
  assumes "map (fsPath ops) (ws_roots (ctx_getWorkspace s)) \<noteq> validateRoots ops newRoots"
    and "validateRoots ops newRoots = []"
  shows "doSetRoots ops s newRoots = ([GetWorkspace, GetWorkspace], Resolved Null)"
  using assms by (simp add: doSetRoots_def equals_iff Let_def)

lemma addRoots_Some:
  "addRoots ops s (Some rootsToAdd) =
     prepend [GetWorkspace] (doSetRoots ops s (Some (ws_roots (ctx_getWorkspace s) @ rootsToAdd)))"
  by (simp add: addRoots_def truthy_def Let_def)

lemma removeRoots_Some:
  "removeRoots ops s (Some rootsToRemove) =
     prepend [GetWorkspace]
       (doSetRoots ops s
          (Some (filter (\<lambda>root. toString ops root False
                                \<notin> set (map (\<lambda>r. toString ops r False) rootsToRemove))
                   (ws_roots (ctx_getWorkspace s)))))"
  by (simp add: removeRoots_def truthy_def Let_def indexOf_absent)

lemma createWorkspace_dismissed:
  assumes "choice_choose s Info prompt [''Yes'', ''No''] 1 = Inl e"
  shows "createWorkspace ops s newRoots = ([Choose Info prompt [''Yes'', ''No''] 1], Rejected e)"
  using assms by (simp add: createWorkspace_def)

lemma createWorkspace_answered:
  assumes "choice_choose s Info prompt [''Yes'', ''No''] 1 = Inr option"
  shows "createWorkspace ops s newRoots =
     prepend [Choose Info prompt [''Yes'', ''No''] 1]
       (then_p (doCreateWorkspace ops s newRoots)
          (\<lambda>newConfiguration. ([OpenWindow [newConfiguration]],
                                promise (windows_openWindow s [newConfiguration]))))"
  using assms
  by (cases "doCreateWorkspace ops s newRoots"; cases "snd (doCreateWorkspace ops s newRoots)")
     (simp_all add: createWorkspace_def prepend_def)

lemma doCreateWorkspace_eq:
  "doCreateWorkspace ops s folders =
     ([GenerateUuid,
       Write (uri_file ops (path_join ops (env_appSettingsHome s) (uuid_generateUuid s (uuid_calls s) @ ''.vscode'')))
         []
         (JObject [(''ID'', JString (uuid_generateUuid s (uuid_calls s))), (''folders'', JArray (map JString folders))])
         True],
      (case json_write s
              (uri_file ops (path_join ops (env_appSettingsHome s) (uuid_generateUuid s (uuid_calls s) @ ''.vscode'')))
              []
              (JObject [(''ID'', JString (uuid_generateUuid s (uuid_calls s))),
                        (''folders'', JArray (map JString folders))])
              True of
         Inl e \<Rightarrow> Rejected e
       | Inr v \<Rightarrow> Resolved (path_join ops (env_appSettingsHome s) (uuid_generateUuid s (uuid_calls s) @ ''.vscode''))))"
  by (simp add: doCreateWorkspace_def Let_def prepend_def split: sum.split)

lemma doCreateWorkspace_trace:
  "fst (doCreateWorkspace ops s folders) =
     [GenerateUuid,
       Write (uri_file ops (path_join ops (env_appSettingsHome s) (uuid_generateUuid s (uuid_calls s) @ ''.vscode'')))
         []
         (JObject [(''ID'', JString (uuid_generateUuid s (uuid_calls s))), (''folders'', JArray (map JString folders))])
         True]"
  by (simp add: doCreateWorkspace_eq)

lemma createWorkspace_materialization_fails:
  assumes "choice_choose s Info prompt [''Yes'', ''No''] 1 = Inr option"
    and "snd (doCreateWorkspace ops s newRoots) = Rejected e"
  shows "createWorkspace ops s newRoots =
        (Choose Info prompt [''Yes'', ''No''] 1 # fst (doCreateWorkspace ops s newRoots), Rejected e)"
proof -
  obtain t r where d: "doCreateWorkspace ops s newRoots = (t, r)"
    by (cases "doCreateWorkspace ops s newRoots")
  with assms(2) have "r = Rejected e" by simp
  with d assms(1) show ?thesis by (simp add: createWorkspace_answered prepend_def)
qed








lemma inj_example_uuid: "inj example_uuid"
  by (simp add: inj_def example_uuid_def)

section \<open>The Validator\<close>

text \<open>
  Claim C5. \<^verbatim>\<open>validateRoots\<close> answers \<^verbatim>\<open>null\<close> with the empty array. For an array \<open>R\<close> it
  returns canonical string forms (\<^verbatim>\<open>toString(true)\<close>) of \<open>R\<close>: exactly those that occur, each
  once, and in the order of their first occurrences in \<open>R\<close> (the first-occurrence indices of
  the result are strictly increasing).
\<close>

theorem validateRoots_first_occurrence:
  "validateRoots ops None = []
   \<and> set (validateRoots ops (Some R)) = set (map (\<lambda>root. toString ops root True) R)
   \<and> distinct (validateRoots ops (Some R))
   \<and> sorted_wrt (<) (map (indexOf (map (\<lambda>root. toString ops root True) R)) (validateRoots ops (Some R)))"
  by (simp add: validateRoots_def distinct_arr_def set_distinct_from distinct_distinct_from
      distinct_from_order)

section \<open>The feature gate\<close>

text \<open>
  Claim C2. With the gate closed (a folder workspace is open and the build is stable, so
  \<open>supported\<close> is false) the two public methods are to resolve at once and call no
  collaborator. The guards test the method object and not its result, so they never fire: in
  such a session \<^verbatim>\<open>addRoots\<close> reads the workspace, prompts, creates a configuration file and
  opens a window, and \<^verbatim>\<open>removeRoots\<close> rewrites the folders of the configuration.
\<close>

theorem closed_gate_still_runs:
  "supported (stable_editor [folder_a] None) = False
   \<and> addRoots posix (stable_editor [folder_a] None) (Some [folder_b]) =
       ([GetWorkspace, GetWorkspace, GetWorkspace,
         Choose Info prompt [''Yes'', ''No''] 1,
         GenerateUuid,
         Write (URI_file ''/home/user/.config/Code/7f3c.vscode'') []
           (JObject [(''ID'', JString ''7f3c''),
                     (''folders'', JArray [JString ''file:///a'', JString ''file:///b''])]) True,
         OpenWindow [''/home/user/.config/Code/7f3c.vscode'']],
        Resolved Undefined)
   \<and> removeRoots posix (stable_editor [folder_a, folder_b] (Some workspace_file)) (Some [folder_b]) =
       ([GetWorkspace, GetWorkspace, GetWorkspace,
         Write workspace_file ''folders'' (JArray [JString ''file:///a'']) True],
        Resolved Undefined)"
  by (simp add: supported_def service_eval session_eval uri_eval)

section \<open>Reconciliation\<close>

text \<open>
  Claim C1. A reconciliation whose desired set equals the current one is to do nothing; in
  particular \<^verbatim>\<open>addRoots([])\<close> with the current roots \<^verbatim>\<open>[A, B]\<close> is to write nothing.
  \<open>doSetRoots_unchanged\<close> is the first half. The second half fails: the current set is taken
  as file-system paths (\<^verbatim>\<open>fsPath\<close>) and the desired set as URI strings
  (\<^verbatim>\<open>toString(true)\<close>), so for the folders \<^verbatim>\<open>/a\<close> and \<^verbatim>\<open>/b\<close> the two lists differ and
  the folders are written again.
\<close>

theorem addRoots_nothing_still_writes:
  "map (fsPath posix) [folder_a, folder_b] = [''/a'', ''/b'']
   \<and> validateRoots posix (Some ([folder_a, folder_b] @ [])) = [''file:///a'', ''file:///b'']
   \<and> addRoots posix (editor [folder_a, folder_b] (Some workspace_file)) (Some []) =
       ([GetWorkspace, GetWorkspace, GetWorkspace,
         Write workspace_file ''folders'' (JArray [JString ''file:///a'', JString ''file:///b'']) True],
        Resolved Undefined)"
  by (simp add: service_eval session_eval uri_eval)

text \<open>
  Claim C3. \<^verbatim>\<open>addRoots\<close> takes the current roots followed by \<^verbatim>\<open>rootsToAdd\<close>, has the
  Validator deduplicate them, and, when a workspace configuration exists and this desired set
  is not the current set, calls the JSON writer once, replacing the field \<^verbatim>\<open>folders\<close> of the
  configuration by the desired set; the operation ends as the writer does.
\<close>

theorem addRoots_writes_folders:
  assumes conf: "ws_configuration (ctx_getWorkspace s) = Some c"
    and changed: "map (fsPath ops) (ws_roots (ctx_getWorkspace s))
                  \<noteq> validateRoots ops (Some (ws_roots (ctx_getWorkspace s) @ rootsToAdd))"
  shows "validateRoots ops (Some (ws_roots (ctx_getWorkspace s) @ rootsToAdd)) =
           distinct_arr (map (\<lambda>root. toString ops root True) (ws_roots (ctx_getWorkspace s) @ rootsToAdd))
         \<and> addRoots ops s (Some rootsToAdd) =
           ([GetWorkspace, GetWorkspace, GetWorkspace,
             Write c ''folders''
               (JArray (map JString (validateRoots ops (Some (ws_roots (ctx_getWorkspace s) @ rootsToAdd)))))
               True],
            promise (json_write s c ''folders''
               (JArray (map JString (validateRoots ops (Some (ws_roots (ctx_getWorkspace s) @ rootsToAdd)))))
               True))"
proof -
  let ?desired = "Some (ws_roots (ctx_getWorkspace s) @ rootsToAdd)"
  have "validateRoots ops ?desired \<noteq> []"
  proof
    assume empty: "validateRoots ops ?desired = []"
    then have "ws_roots (ctx_getWorkspace s) = []" by (simp add: validateRoots_Nil_iff)
    with empty changed show False by simp
  qed
  with conf changed have "doSetRoots ops s ?desired =
     ([GetWorkspace, GetWorkspace,
       Write c ''folders'' (JArray (map JString (validateRoots ops ?desired))) True],
      promise (json_write s c ''folders'' (JArray (map JString (validateRoots ops ?desired))) True))"
    by (rule doSetRoots_write)
  then have "addRoots ops s (Some rootsToAdd) =
     ([GetWorkspace, GetWorkspace, GetWorkspace,
       Write c ''folders'' (JArray (map JString (validateRoots ops ?desired))) True],
      promise (json_write s c ''folders'' (JArray (map JString (validateRoots ops ?desired))) True))"
    by (simp add: addRoots_Some prepend_def)
  moreover have "validateRoots ops ?desired =
      distinct_arr (map (\<lambda>root. toString ops root True) (ws_roots (ctx_getWorkspace s) @ rootsToAdd))"
    by (simp add: validateRoots_def)
  ultimately show ?thesis by (simp only: simp_thms)
qed

text \<open>
  With the current roots \<^verbatim>\<open>[A, B]\<close>, adding \<^verbatim>\<open>[C]\<close> writes the folders \<^verbatim>\<open>[A, B, C]\<close>; with the
  current root \<^verbatim>\<open>[A]\<close>, adding \<^verbatim>\<open>[A, B]\<close> writes \<^verbatim>\<open>[A, B]\<close>.
\<close>

theorem addRoots_writes_folders_witness:
  "addRoots posix (editor [folder_a, folder_b] (Some workspace_file)) (Some [folder_c]) =
     ([GetWorkspace, GetWorkspace, GetWorkspace,
       Write workspace_file ''folders''
         (JArray [JString ''file:///a'', JString ''file:///b'', JString ''file:///c'']) True],
      Resolved Undefined)
   \<and> addRoots posix (editor [folder_a] (Some workspace_file)) (Some [folder_a, folder_b]) =
     ([GetWorkspace, GetWorkspace, GetWorkspace,
       Write workspace_file ''folders'' (JArray [JString ''file:///a'', JString ''file:///b'']) True],
      Resolved Undefined)"
proof -
  have 1: "ws_configuration (ctx_getWorkspace (editor rs (Some workspace_file))) = Some workspace_file" for rs
    by (simp add: editor_def)
  have 2: "map (fsPath posix) (ws_roots (ctx_getWorkspace (editor [folder_a, folder_b] (Some workspace_file))))
           \<noteq> validateRoots posix (Some (ws_roots (ctx_getWorkspace (editor [folder_a, folder_b] (Some workspace_file))) @ [folder_c]))"
    by (simp add: service_eval session_eval uri_eval)
  have 3: "map (fsPath posix) (ws_roots (ctx_getWorkspace (editor [folder_a] (Some workspace_file))))
           \<noteq> validateRoots posix (Some (ws_roots (ctx_getWorkspace (editor [folder_a] (Some workspace_file))) @ [folder_a, folder_b]))"
    by (simp add: service_eval session_eval uri_eval)
  show ?thesis
    using addRoots_writes_folders [OF 1 2] addRoots_writes_folders [OF 1 3]
    by (simp add: validateRoots_def distinct_arr_def session_eval uri_eval)
qed

text \<open>
  Removal does not match by the Validator's canonical form. The two roots below have the same
  canonical form \<^verbatim>\<open>file:///a?p%23q#r\<close> (and would share \<^verbatim>\<open>file:///a?p#q#r\<close> if the form with
  encoding skipped left every character alone) and the different encoded forms
  \<^verbatim>\<open>file:///a?p%23q%23r\<close> and \<^verbatim>\<open>file:///a?p%23q#r\<close>. Removing the second from a workspace
  that holds the first leaves it in place and writes it back, where matching by the canonical
  form would have emptied the desired set.
\<close>

theorem removeRoots_canonical_form_counterexample:
  "toString posix query_root True = ''file:///a?p%23q#r''
   \<and> toString posix fragment_root True = ''file:///a?p%23q#r''
   \<and> toString posix query_root False = ''file:///a?p%23q%23r''
   \<and> toString posix fragment_root False = ''file:///a?p%23q#r''
   \<and> removeRoots_spec posix [query_root] [fragment_root] = []
   \<and> removeRoots posix (editor [query_root] (Some workspace_file)) (Some [fragment_root]) =
       ([GetWorkspace, GetWorkspace, GetWorkspace,
         Write workspace_file ''folders'' (JArray [JString ''file:///a?p%23q#r'']) True],
        Resolved Undefined)
   \<and> prepend [GetWorkspace]
         (doSetRoots posix (editor [query_root] (Some workspace_file))
            (Some (removeRoots_spec posix [query_root] [fragment_root]))) =
       ([GetWorkspace, GetWorkspace, GetWorkspace], Resolved Null)"
  by (simp add: removeRoots_spec_def service_eval session_eval uri_eval)

text \<open>
  Claim C4, amended. \<^verbatim>\<open>removeRoots\<close> reconciles towards the current roots without those
  whose encoded string form (\<^verbatim>\<open>toString()\<close>) is the encoded string form of an entry of
  \<^verbatim>\<open>rootsToRemove\<close>. The Validator canonicalises with another function, the string form with
  encoding skipped (\<^verbatim>\<open>toString(true)\<close>).
\<close>

theorem removeRoots_filters_by_encoded_form:
  "removeRoots ops s (Some rootsToRemove) =
     prepend [GetWorkspace]
       (doSetRoots ops s
          (Some (filter (\<lambda>root. toString ops root False
                                \<notin> set (map (\<lambda>r. toString ops r False) rootsToRemove))
                   (ws_roots (ctx_getWorkspace s)))))
   \<and> validateRoots ops (Some rs) = distinct_arr (map (\<lambda>root. toString ops root True) rs)"
  by (simp add: removeRoots_Some validateRoots_def)

text \<open>
  With the current roots \<^verbatim>\<open>[A, B, C]\<close>, removing \<^verbatim>\<open>[B]\<close> reconciles towards \<^verbatim>\<open>[A, C]\<close>.
\<close>

theorem removeRoots_filters_by_encoded_form_witness:
  "removeRoots posix (editor [folder_a, folder_b, folder_c] (Some workspace_file)) (Some [folder_b]) =
     ([GetWorkspace, GetWorkspace, GetWorkspace,
       Write workspace_file ''folders'' (JArray [JString ''file:///a'', JString ''file:///c'']) True],
      Resolved Undefined)"
  using removeRoots_filters_by_encoded_form
    [of posix "editor [folder_a, folder_b, folder_c] (Some workspace_file)" "[folder_b]" "[]"]
  by (simp add: doSetRoots_def validateRoots_def distinct_arr_def prepend_def Let_def
      session_eval uri_eval)




text \<open>
  Claim C9. A reconciliation whose normalized desired set is empty and differs from the
  current set does nothing after reading the workspace: no prompt, no write, no window, and
  the promise resolves.
\<close>

theorem empty_desired_set_no_action:
  assumes "validateRoots ops newRoots = []"
    and "validateRoots ops newRoots \<noteq> map (fsPath ops) (ws_roots (ctx_getWorkspace s))"
  shows "doSetRoots ops s newRoots = ([GetWorkspace, GetWorkspace], Resolved Null)"
  using assms by (simp add: doSetRoots_empty)

theorem empty_desired_set_no_action_witness:
  "doSetRoots posix (editor [folder_a] (Some workspace_file)) (Some []) =
     ([GetWorkspace, GetWorkspace], Resolved Null)
   \<and> doSetRoots posix (editor [folder_a] None) None =
     ([GetWorkspace, GetWorkspace], Resolved Null)"
proof -
  have 1: "validateRoots posix (Some []) = []" and 2: "validateRoots posix None = []"
    by (simp_all add: validateRoots_def distinct_arr_def)
  have 3: "validateRoots posix (Some [])
      \<noteq> map (fsPath posix) (ws_roots (ctx_getWorkspace (editor [folder_a] (Some workspace_file))))"
    and 4: "validateRoots posix None
      \<noteq> map (fsPath posix) (ws_roots (ctx_getWorkspace (editor [folder_a] None)))"
    by (simp_all add: validateRoots_def distinct_arr_def session_eval uri_eval)
  show ?thesis
    using empty_desired_set_no_action [OF 1 3] empty_desired_set_no_action [OF 2 4] by simp
qed

text \<open>
  Removing the only root of a workspace is such a reconciliation.
\<close>

lemma removeRoots_all:
  "removeRoots posix (editor [folder_a] (Some workspace_file)) (Some [folder_a]) =
     ([GetWorkspace, GetWorkspace, GetWorkspace], Resolved Null)"
  by (simp add: service_eval session_eval uri_eval)

section \<open>Creating a workspace\<close>

text \<open>
  Claim C7. When the prompt fails or is dismissed, the create-new-workspace flow calls
  nothing else, so no configuration is written and no window is opened, and its promise is
  rejected; a reconciliation on that path is rejected with the same error. When the prompt
  is answered and the materialization fails, no window is opened and the promise is
  rejected.
\<close>

theorem createWorkspace_failures:
  "(choice_choose s Info prompt [''Yes'', ''No''] 1 = Inl e \<longrightarrow>
      createWorkspace ops s newRoots = ([Choose Info prompt [''Yes'', ''No''] 1], Rejected e))
   \<and> (choice_choose s Info prompt [''Yes'', ''No''] 1 = Inl e
        \<and> ws_configuration (ctx_getWorkspace s) = None
        \<and> validateRoots ops desired \<noteq> []
        \<and> validateRoots ops desired \<noteq> map (fsPath ops) (ws_roots (ctx_getWorkspace s)) \<longrightarrow>
      doSetRoots ops s desired =
        ([GetWorkspace, GetWorkspace, Choose Info prompt [''Yes'', ''No''] 1], Rejected e))
   \<and> (choice_choose s Info prompt [''Yes'', ''No''] 1 = Inr option
        \<and> snd (doCreateWorkspace ops s newRoots) = Rejected e' \<longrightarrow>
      createWorkspace ops s newRoots =
        (Choose Info prompt [''Yes'', ''No''] 1 # fst (doCreateWorkspace ops s newRoots), Rejected e')
      \<and> \<not> list_ex is_OpenWindow (fst (createWorkspace ops s newRoots)))"
proof (intro conjI impI)
  assume "choice_choose s Info prompt [''Yes'', ''No''] 1 = Inl e"
  then show "createWorkspace ops s newRoots = ([Choose Info prompt [''Yes'', ''No''] 1], Rejected e)"
    by (rule createWorkspace_dismissed)
next
  assume a: "choice_choose s Info prompt [''Yes'', ''No''] 1 = Inl e
             \<and> ws_configuration (ctx_getWorkspace s) = None
             \<and> validateRoots ops desired \<noteq> []
             \<and> validateRoots ops desired \<noteq> map (fsPath ops) (ws_roots (ctx_getWorkspace s))"
  then have "doSetRoots ops s desired =
      prepend [GetWorkspace, GetWorkspace] (createWorkspace ops s (validateRoots ops desired))"
    by (intro doSetRoots_create) auto
  with a show "doSetRoots ops s desired =
        ([GetWorkspace, GetWorkspace, Choose Info prompt [''Yes'', ''No''] 1], Rejected e)"
    by (simp add: createWorkspace_dismissed prepend_def)
next
  assume a: "choice_choose s Info prompt [''Yes'', ''No''] 1 = Inr option
             \<and> snd (doCreateWorkspace ops s newRoots) = Rejected e'"
  then show eq: "createWorkspace ops s newRoots =
        (Choose Info prompt [''Yes'', ''No''] 1 # fst (doCreateWorkspace ops s newRoots), Rejected e')"
    by (simp only: createWorkspace_materialization_fails)
  show "\<not> list_ex is_OpenWindow (fst (createWorkspace ops s newRoots))"
    unfolding eq fst_conv doCreateWorkspace_trace by simp
qed

text \<open>
  A dismissed prompt while adding the first root to an empty window, and a writer that fails
  after the prompt was answered.
\<close>

theorem createWorkspace_failures_witness:
  "createWorkspace posix (dismissing_editor [] None) [''file:///a''] =
     ([Choose Info prompt [''Yes'', ''No''] 1], Rejected Canceled)
   \<and> doSetRoots posix (dismissing_editor [] None) (Some [folder_a]) =
     ([GetWorkspace, GetWorkspace, Choose Info prompt [''Yes'', ''No''] 1], Rejected Canceled)
   \<and> createWorkspace posix (failing_editor [] None) [''file:///a''] =
     ([Choose Info prompt [''Yes'', ''No''] 1, GenerateUuid,
       Write (URI_file ''/home/user/.config/Code/7f3c.vscode'') []
         (JObject [(''ID'', JString ''7f3c''), (''folders'', JArray [JString ''file:///a''])]) True],
      Rejected (Failure ''EACCES''))
   \<and> \<not> list_ex is_OpenWindow (fst (createWorkspace posix (failing_editor [] None) [''file:///a'']))"
proof -
  have dismissed: "choice_choose (dismissing_editor [] None) Info prompt [''Yes'', ''No''] 1 = Inl Canceled"
    by (simp add: session_eval)
  have answered: "choice_choose (failing_editor [] None) Info prompt [''Yes'', ''No''] 1 = Inr 1"
    by (simp add: session_eval)
  have none: "ws_configuration (ctx_getWorkspace (dismissing_editor [] None)) = None"
    by (simp add: session_eval)
  have nonempty: "validateRoots posix (Some [folder_a]) \<noteq> []"
    and changed: "validateRoots posix (Some [folder_a])
      \<noteq> map (fsPath posix) (ws_roots (ctx_getWorkspace (dismissing_editor [] None)))"
    by (simp_all add: validateRoots_def distinct_arr_def session_eval uri_eval)
  have materialization:
    "doCreateWorkspace posix (failing_editor [] None) [''file:///a''] =
       ([GenerateUuid,
         Write (URI_file ''/home/user/.config/Code/7f3c.vscode'') []
           (JObject [(''ID'', JString ''7f3c''), (''folders'', JArray [JString ''file:///a''])]) True],
        Rejected (Failure ''EACCES''))"
    by (simp add: doCreateWorkspace_def Let_def prepend_def session_eval uri_eval)
  have failed: "snd (doCreateWorkspace posix (failing_editor [] None) [''file:///a''])
      = Rejected (Failure ''EACCES'')"
    by (simp only: materialization snd_conv)
  have "createWorkspace posix (dismissing_editor [] None) [''file:///a''] =
      ([Choose Info prompt [''Yes'', ''No''] 1], Rejected Canceled)
    \<and> doSetRoots posix (dismissing_editor [] None) (Some [folder_a]) =
      ([GetWorkspace, GetWorkspace, Choose Info prompt [''Yes'', ''No''] 1], Rejected Canceled)"
    using createWorkspace_failures
        [of "dismissing_editor [] None" Canceled posix "[''file:///a'']" "Some [folder_a]"]
      dismissed none nonempty changed by blast
  moreover have "createWorkspace posix (failing_editor [] None) [''file:///a''] =
        (Choose Info prompt [''Yes'', ''No''] 1
           # fst (doCreateWorkspace posix (failing_editor [] None) [''file:///a'']),
         Rejected (Failure ''EACCES''))
      \<and> \<not> list_ex is_OpenWindow (fst (createWorkspace posix (failing_editor [] None) [''file:///a'']))"
    using createWorkspace_failures
        [of "failing_editor [] None" Canceled posix "[''file:///a'']" "Some [folder_a]" 1 "Failure ''EACCES''"]
      answered failed by blast
  ultimately show ?thesis by (simp add: materialization)
qed

text \<open>
  The document that is written has the top-level fields \<^verbatim>\<open>ID\<close> and \<^verbatim>\<open>folders\<close>; it has no
  field \<^verbatim>\<open>id\<close>.
\<close>

theorem materialized_document_counterexample:
  "written (fst (doCreateWorkspace posix (editor [] None) [''file:///a''])) =
     [JObject [(''ID'', JString ''7f3c''), (''folders'', JArray [JString ''file:///a''])]]
   \<and> json_field (JObject [(''ID'', JString ''7f3c''), (''folders'', JArray [JString ''file:///a''])]) ''id''
       = None
   \<and> written (fst (doCreateWorkspace posix (editor [] None) [''file:///a'']))
       \<noteq> [payload_spec ''7f3c'' [''file:///a'']]"
  by (simp add: doCreateWorkspace_def Let_def prepend_def payload_spec_def session_eval uri_eval)

text \<open>
  Claim C8, amended. The materialization generates an identifier, joins the settings-home
  directory with the identifier followed by \<^verbatim>\<open>.vscode\<close>, and asks the JSON writer to write,
  under the empty key and creating the file, the document with the top-level fields \<^verbatim>\<open>ID\<close>
  (the identifier) and \<^verbatim>\<open>folders\<close>. When the writer succeeds the promise resolves with the
  joined path; when it fails the promise is rejected. The identifier is the next answer of
  the generator, taken once: with a generator whose answers never repeat it differs from
  every identifier generated before, and the next materialization writes another one.
\<close>

theorem doCreateWorkspace_writes_document:
  "doCreateWorkspace ops s folders =
     ([GenerateUuid,
       Write (uri_file ops
                (path_join ops (env_appSettingsHome s) (uuid_generateUuid s (uuid_calls s) @ ''.vscode'')))
         []
         (JObject [(''ID'', JString (uuid_generateUuid s (uuid_calls s))),
                   (''folders'', JArray (map JString folders))])
         True],
      (case json_write s
              (uri_file ops
                 (path_join ops (env_appSettingsHome s) (uuid_generateUuid s (uuid_calls s) @ ''.vscode'')))
              []
              (JObject [(''ID'', JString (uuid_generateUuid s (uuid_calls s))),
                        (''folders'', JArray (map JString folders))])
              True of
         Inl e \<Rightarrow> Rejected e
       | Inr v \<Rightarrow>
           Resolved (path_join ops (env_appSettingsHome s) (uuid_generateUuid s (uuid_calls s) @ ''.vscode''))))
   \<and> uuid_calls (after (fst (doCreateWorkspace ops s folders)) s) = Suc (uuid_calls s)
   \<and> (inj (uuid_generateUuid s) \<longrightarrow>
        (\<forall>k<uuid_calls s. uuid_generateUuid s k \<noteq> uuid_generateUuid s (uuid_calls s))
        \<and> written_ids
             (fst (doCreateWorkspace ops (after (fst (doCreateWorkspace ops s folders)) s) folders'))
            \<noteq> written_ids (fst (doCreateWorkspace ops s folders)))"
proof (intro conjI impI)
  show "doCreateWorkspace ops s folders =
     ([GenerateUuid,
       Write (uri_file ops
                (path_join ops (env_appSettingsHome s) (uuid_generateUuid s (uuid_calls s) @ ''.vscode'')))
         []
         (JObject [(''ID'', JString (uuid_generateUuid s (uuid_calls s))),
                   (''folders'', JArray (map JString folders))])
         True],
      (case json_write s
              (uri_file ops
                 (path_join ops (env_appSettingsHome s) (uuid_generateUuid s (uuid_calls s) @ ''.vscode'')))
              []
              (JObject [(''ID'', JString (uuid_generateUuid s (uuid_calls s))),
                        (''folders'', JArray (map JString folders))])
              True of
         Inl e \<Rightarrow> Rejected e
       | Inr v \<Rightarrow>
           Resolved (path_join ops (env_appSettingsHome s) (uuid_generateUuid s (uuid_calls s) @ ''.vscode''))))"
    by (rule doCreateWorkspace_eq)
  show next_call: "uuid_calls (after (fst (doCreateWorkspace ops s folders)) s) = Suc (uuid_calls s)"
    by (simp add: after_def doCreateWorkspace_trace)
  assume fresh: "inj (uuid_generateUuid s)"
  then show "\<forall>k<uuid_calls s. uuid_generateUuid s k \<noteq> uuid_generateUuid s (uuid_calls s)"
    by (simp add: inj_eq)
  from fresh have "uuid_generateUuid s (Suc (uuid_calls s)) \<noteq> uuid_generateUuid s (uuid_calls s)"
    by (simp add: inj_eq)
  then show "written_ids
             (fst (doCreateWorkspace ops (after (fst (doCreateWorkspace ops s folders)) s) folders'))
            \<noteq> written_ids (fst (doCreateWorkspace ops s folders))"
    by (simp add: written_ids_def doCreateWorkspace_trace after_def)
qed

text \<open>
  Two materializations in a row: the first writes the identifier \<^verbatim>\<open>7f3c\<close>, the second
  \<^verbatim>\<open>7f3c0\<close>.
\<close>

theorem doCreateWorkspace_writes_document_witness:
  "doCreateWorkspace posix (editor [] None) [''file:///a''] =
     ([GenerateUuid,
       Write (URI_file ''/home/user/.config/Code/7f3c.vscode'') []
         (JObject [(''ID'', JString ''7f3c''), (''folders'', JArray [JString ''file:///a''])]) True],
      Resolved ''/home/user/.config/Code/7f3c.vscode'')
   \<and> written_ids
        (fst (doCreateWorkspace posix
                (after (fst (doCreateWorkspace posix (editor [] None) [''file:///a''])) (editor [] None))
                [''file:///b'']))
       \<noteq> written_ids (fst (doCreateWorkspace posix (editor [] None) [''file:///a'']))"
proof -
  have "uuid_generateUuid (editor [] None) = example_uuid" by (simp add: editor_def)
  with inj_example_uuid have fresh: "inj (uuid_generateUuid (editor [] None))" by (simp only:)
  have "written_ids
        (fst (doCreateWorkspace posix
                (after (fst (doCreateWorkspace posix (editor [] None) [''file:///a''])) (editor [] None))
                [''file:///b'']))
       \<noteq> written_ids (fst (doCreateWorkspace posix (editor [] None) [''file:///a'']))"
    using doCreateWorkspace_writes_document [of posix "editor [] None" "[''file:///a'']" "[''file:///b'']"]
      fresh by blast
  moreover have "doCreateWorkspace posix (editor [] None) [''file:///a''] =
     ([GenerateUuid,
       Write (URI_file ''/home/user/.config/Code/7f3c.vscode'') []
         (JObject [(''ID'', JString ''7f3c''), (''folders'', JArray [JString ''file:///a''])]) True],
      Resolved ''/home/user/.config/Code/7f3c.vscode'')"
    using doCreateWorkspace_writes_document [of posix "editor [] None" "[''file:///a'']" "[''file:///b'']"]
    by (simp add: session_eval uri_eval)
  ultimately show ?thesis by (simp only: simp_thms)
qed

lemma second_materialization:
  "doCreateWorkspace posix
     (after (fst (doCreateWorkspace posix (editor [] None) [''file:///a''])) (editor [] None))
     [''file:///b''] =
     ([GenerateUuid,
       Write (URI_file ''/home/user/.config/Code/7f3c0.vscode'') []
         (JObject [(''ID'', JString ''7f3c0''), (''folders'', JArray [JString ''file:///b''])]) True],
      Resolved ''/home/user/.config/Code/7f3c0.vscode'')"
  by (simp add: doCreateWorkspace_def after_def Let_def prepend_def session_eval uri_eval)

section \<open>Null arguments\<close>

text \<open>
  Claim C10. \<^verbatim>\<open>validateRoots\<close> answers \<^verbatim>\<open>null\<close> with the empty array, but the two public
  methods do not: with a \<^verbatim>\<open>null\<close> argument each of them ends with a thrown TypeError, and
  neither resolves.
\<close>

theorem null_argument_faults:
  "validateRoots ops None = []
   \<and> snd (addRoots ops s None) = Thrown TypeError
   \<and> snd (removeRoots ops s None) = Thrown TypeError"
  by (simp add: validateRoots_def addRoots_def removeRoots_def truthy_def)

end
